theory Spec2Isabelle
  imports Complex_Main
begin

section \<open>JavaScript values shared by the models\<close>

text \<open>
  JavaScript numbers are modelled as reals where they are prices and distances, and as
  integers where they are instants (milliseconds since the epoch), page numbers and row
  counts. A thrown object is a value of \<open>js_error\<close> carrying its \<open>message\<close>.
\<close>

datatype js_error = TypeError string | Error string

fun message :: "js_error \<Rightarrow> string" where
  "message (TypeError m) = m"
| "message (Error m) = m"

section \<open>Booking page (src/pages/BookingForm.jsx)\<close>

subsection \<open>Component state\<close>

text \<open>The \<open>formData\<close> object of the page, with \<open>pickupDateTime\<close> as an instant.\<close>

record form_data =
  serviceType :: string
  userName :: string
  phoneNumber :: string
  vehicleBrand :: string
  vehicleModel :: string
  vehicleColor :: string
  licensePlate :: string
  vehicleSize :: string
  pickupAddress :: string
  dropOffAddress :: string
  vehicleIssue :: string
  additionalDetails :: string
  wheelsStatus :: string
  pickupDateTime :: int
  paymentMethod :: string

text \<open>
  What \<open>handleBookingProcess\<close> and \<open>calculateTotalCost\<close> read from the closure of the
  component: the \<open>useState\<close> values and the hooks. \<open>session\<close> is the user id of the
  authenticated session, \<open>None\<close> without one; \<open>stripe\<close> and \<open>elements\<close> say whether the
  Stripe hooks have delivered their objects.
\<close>

record component =
  formData :: form_data
  distance :: real
  totalCost :: real
  selectedTowTruck :: string
  isTestMode :: bool
  session :: "string option"
  stripe :: bool
  elements :: bool

subsection \<open>Pricing calculator\<close>

text \<open>The object \<open>{ perKm, basePrice }\<close> that \<open>getTowTruckPricing\<close> hands back.\<close>

record pricing =
  perKm :: real
  basePrice :: real

text \<open>
  \<open>getTowTruckType\<close> and \<open>getTowTruckPricing\<close> are imported from
  \<open>utils/towTruckSelection\<close>, whose file is not among the sources, so they are
  parameters. A lookup that yields \<open>undefined\<close> is \<open>None\<close>: destructuring
  \<open>undefined\<close> throws a \<open>TypeError\<close>.

  \<^verbatim>\<open>
  const calculateTotalCost = () => {
    const towTruckType = getTowTruckType(formData.vehicleSize);
    const { perKm, basePrice } = getTowTruckPricing(towTruckType);
    return basePrice + (distance * perKm * 2);
  };
  \<close>
\<close>

definition calculateTotalCost ::
  "(string \<Rightarrow> 'c) \<Rightarrow> ('c \<Rightarrow> pricing option) \<Rightarrow> component \<Rightarrow> js_error + real" where
  "calculateTotalCost getTowTruckType getTowTruckPricing c =
     (let towTruckType = getTowTruckType (vehicleSize (formData c)) in
      case getTowTruckPricing towTruckType of
        None \<Rightarrow> Inl (TypeError ''Cannot destructure property 'perKm' of undefined'')
      | Some p \<Rightarrow> Inr (basePrice p + (distance c * perKm p * 2)))"

text \<open>
  Modelled from the spec: the body of \<open>getTowTruckType\<close> (utils/towTruckSelection) is
  missing. The spec names one bucket, size "Medium" resolving to category "Standard";
  every other size is left unmapped here.
\<close>

definition spec_getTowTruckType :: "string \<Rightarrow> string option" where
  "spec_getTowTruckType vSize =
     (if vSize = ''Medium'' then Some ''Standard'' else None)"

text \<open>
  Modelled from the spec: the rate table behind \<open>getTowTruckPricing\<close>
  (utils/towTruckSelection) is missing. The spec gives one entry, category "Standard"
  with basePrice 50 and perKm 2.
\<close>

definition spec_getTowTruckPricing :: "string option \<Rightarrow> pricing option" where
  "spec_getTowTruckPricing towTruckType =
     (if towTruckType = Some ''Standard'' then Some \<lparr>perKm = 2, basePrice = 50\<rparr> else None)"

subsection \<open>The store, the outside world and the effects of a submission\<close>

text \<open>
  A row of \<open>services\<close> as the insert writes it, with the two columns the store issues
  (\<open>id\<close>, \<open>service_number\<close>) and reads back through \<open>.select('id, service_number')\<close>.
\<close>

record service_row =
  srv_id :: nat
  srv_service_number :: string
  srv_user_id :: string
  srv_dynamic_key :: string
  srv_status :: string

text \<open>
  The \<open>bookingData\<close> object: the spread \<open>...formData\<close> is the field \<open>bk_form\<close>,
  \<open>createdAt\<close> is the instant whose ISO string the code stores.
\<close>

record booking_data =
  bk_form :: form_data
  bk_distance :: real
  bk_totalCost :: real
  bk_towTruckType :: string
  bk_status :: string
  bk_serviceId :: nat
  bk_serviceNumber :: string
  bk_dynamicKey :: string
  bk_createdAt :: int
  bk_isTestMode :: bool

text \<open>
  Everything observable that one run does, in order. The four network calls are
  \<open>ConfirmPayment\<close> (\<open>stripe.confirmPayment\<close>), \<open>ServicesInsert\<close>, \<open>BookingsInsert\<close>
  (the two store inserts) and \<open>SendAdminNotification\<close>. \<open>Toast title description status\<close>.
\<close>

datatype effect =
    SetIsLoading bool
  | Navigate string
  | ConfirmPayment
  | ServicesInsert
  | BookingsInsert
  | SendAdminNotification
  | ConsoleError string
  | Toast string string string

fun is_network_call :: "effect \<Rightarrow> bool" where
  "is_network_call ConfirmPayment = True"
| "is_network_call ServicesInsert = True"
| "is_network_call BookingsInsert = True"
| "is_network_call SendAdminNotification = True"
| "is_network_call _ = False"

record world =
  services :: "service_row list"
  bookings :: "booking_data list"
  effects :: "effect list"

text \<open>
  What the outside answers during one run: the clock, the Payment Gateway
  (\<open>stripeError.message\<close>, \<open>None\<close> when the confirmation is accepted), \<open>uuidv4()\<close>, the
  two inserts (an error message, or for \<open>services\<close> the issued id and service number)
  and \<open>sendAdminNotification\<close> (the message of its rejection, \<open>None\<close> when it resolves).
  An insert that answers with an error writes no row.
\<close>

record answers =
  now :: int
  confirmPayment_error :: "string option"
  uuidv4 :: string
  services_insert :: "string + (nat \<times> string)"
  bookings_insert_error :: "string option"
  sendAdminNotification_error :: "string option"

datatype outcome =
    NotSubmitted
  | RedirectedToLogin
  | Confirmed booking_data
  | Failed string

definition emit :: "effect \<Rightarrow> world \<Rightarrow> world" where
  "emit e w = w\<lparr>effects := effects w @ [e]\<rparr>"

subsection \<open>validateForm and handleBookingProcess\<close>

text \<open>
  \<^verbatim>\<open>
  const validateForm = () => {
    // Add form validation logic here
    return true;
  };
  \<close>
\<close>

definition validateForm :: "component \<Rightarrow> bool" where
  "validateForm c = True"

text \<open>
  The \<open>catch\<close> block followed by \<open>finally\<close>: the error is logged, a toast titled
  "Booking Failed" shows \<open>error.message || 'An unexpected error occurred'\<close>, and the
  loading flag is cleared.
\<close>

definition booking_failed :: "string \<Rightarrow> world \<Rightarrow> outcome \<times> world" where
  "booking_failed msg w =
     (Failed msg,
      emit (SetIsLoading False)
        (emit (Toast ''Booking Failed''
                 (if msg = [] then ''An unexpected error occurred'' else msg) ''error'')
           (emit (ConsoleError msg) w)))"

text \<open>\<open>isTestMode ? 'test_mode' : 'pending'\<close>, written at both inserts.\<close>

definition status_of :: "component \<Rightarrow> string" where
  "status_of c = (if isTestMode c then ''test_mode'' else ''pending'')"

text \<open>\<open>session?.user?.id || 'test_user'\<close>: an empty id is falsy.\<close>

definition user_id_of :: "component \<Rightarrow> string" where
  "user_id_of c =
     (case session c of
        None \<Rightarrow> ''test_user''
      | Some uid \<Rightarrow> if uid = [] then ''test_user'' else uid)"

definition success_toast :: "component \<Rightarrow> string \<Rightarrow> effect" where
  "success_toast c service_number =
     Toast (if isTestMode c then ''Test Booking Successful'' else ''Booking Successful'')
       (''Your tow service has been '' @ (if isTestMode c then ''test '' else [])
          @ ''booked successfully. Service number: '' @ service_number)
       ''success''"

text \<open>
  The submit handler, statement by statement (lines 124 to 202). A \<open>throw\<close> inside
  \<open>try\<close> is \<open>booking_failed\<close>; the early \<open>return\<close> after the login redirect still runs
  \<open>finally\<close>. \<open>e.preventDefault()\<close> only concerns the browser event and leaves no
  effect here.
\<close>

definition handleBookingProcess :: "component \<Rightarrow> answers \<Rightarrow> world \<Rightarrow> outcome \<times> world" where
  "handleBookingProcess c a w =
     (if \<not> validateForm c then (NotSubmitted, w)
      else
        (let w1 = emit (SetIsLoading True) w in
         if session c = None \<and> \<not> isTestMode c then
           (RedirectedToLogin, emit (SetIsLoading False) (emit (Navigate ''/login'') w1))
         else if \<not> stripe c \<or> \<not> elements c then
           booking_failed ''Stripe has not been initialized'' w1
         else
           (let w2 = emit ConfirmPayment w1 in
            (case confirmPayment_error a of
               Some m \<Rightarrow> booking_failed m w2
             | None \<Rightarrow>
                 (let dynamicKey = uuidv4 a;
                      w3 = emit ServicesInsert w2
                  in
                  (case services_insert a of
                     Inl m \<Rightarrow> booking_failed m w3
                   | Inr (sid, snum) \<Rightarrow>
                       (let w4 = w3\<lparr>services := services w3 @
                                  [\<lparr>srv_id = sid, srv_service_number = snum,
                                    srv_user_id = user_id_of c,
                                    srv_dynamic_key = dynamicKey,
                                    srv_status = status_of c\<rparr>]\<rparr>;
                            bookingData =
                              \<lparr>bk_form = formData c,
                               bk_distance = distance c,
                               bk_totalCost = totalCost c,
                               bk_towTruckType = selectedTowTruck c,
                               bk_status = status_of c,
                               bk_serviceId = sid,
                               bk_serviceNumber = snum,
                               bk_dynamicKey = dynamicKey,
                               bk_createdAt = now a,
                               bk_isTestMode = isTestMode c\<rparr>;
                            w5 = emit BookingsInsert w4
                        in
                        (case bookings_insert_error a of
                           Some m \<Rightarrow> booking_failed m w5
                         | None \<Rightarrow>
                             (let w6 = w5\<lparr>bookings := bookings w5 @ [bookingData]\<rparr>;
                                  w7 = emit SendAdminNotification w6
                              in
                              (case sendAdminNotification_error a of
                                 Some m \<Rightarrow> booking_failed m w7
                               | None \<Rightarrow>
                                   (Confirmed bookingData,
                                    emit (SetIsLoading False)
                                      (emit (Navigate ''/confirmation'')
                                         (emit (success_toast c snum) w7)))))))))))))"

subsection \<open>What one run added\<close>

text \<open>
  A run only appends to the two tables and to the effects; these are the rows and the
  effects it added.
\<close>

definition new_services :: "world \<Rightarrow> world \<Rightarrow> service_row list" where
  "new_services w w' = drop (length (services w)) (services w')"

definition new_bookings :: "world \<Rightarrow> world \<Rightarrow> booking_data list" where
  "new_bookings w w' = drop (length (bookings w)) (bookings w')"

definition new_effects :: "world \<Rightarrow> world \<Rightarrow> effect list" where
  "new_effects w w' = drop (length (effects w)) (effects w')"

subsection \<open>A concrete submission\<close>

text \<open>\<open>generateTestData\<close> of the page, with \<open>new Date()\<close> as its argument.\<close>

definition generateTestData :: "int \<Rightarrow> form_data" where
  "generateTestData today =
     \<lparr>serviceType = ''Tow'',
      userName = ''Test User'',
      phoneNumber = ''1234567890'',
      vehicleBrand = ''Test Brand'',
      vehicleModel = ''Test Model'',
      vehicleColor = ''Red'',
      licensePlate = ''TEST123'',
      vehicleSize = ''Medium'',
      pickupAddress = ''123 Test St, Test City'',
      dropOffAddress = ''456 Example Ave, Sample Town'',
      vehicleIssue = ''Test Issue'',
      additionalDetails = ''This is a test booking'',
      wheelsStatus = ''Wheels Turn'',
      pickupDateTime = today,
      paymentMethod = ''card''\<rparr>"

text \<open>
  A signed-in customer with the Stripe objects loaded, a route of 10 km priced at 90, and
  a pickup time (instant 1000) that lies before the submission (instant 5000).
\<close>

definition sample_component :: component where
  "sample_component =
     \<lparr>formData = generateTestData 1000, distance = 10, totalCost = 90,
      selectedTowTruck = ''Standard'', isTestMode = False, session = Some ''user-1'',
      stripe = True, elements = True\<rparr>"

text \<open>An outside world in which every call succeeds.\<close>

definition sample_answers :: answers where
  "sample_answers =
     \<lparr>now = 5000, confirmPayment_error = None, uuidv4 = ''key-1'',
      services_insert = Inr (7, ''SN-0007''), bookings_insert_error = None,
      sendAdminNotification_error = None\<rparr>"

definition empty_world :: world where
  "empty_world = \<lparr>services = [], bookings = [], effects = []\<rparr>"

text \<open>The same world, except that the Payment Gateway declines the card.\<close>

definition payment_declined :: answers where
  "payment_declined = sample_answers\<lparr>confirmPayment_error := Some ''Your card was declined.''\<rparr>"

text \<open>The same world, except that \<open>sendAdminNotification\<close> rejects.\<close>

definition notification_down :: answers where
  "notification_down =
     sample_answers\<lparr>sendAdminNotification_error := Some ''Failed to send admin notification''\<rparr>"

text \<open>The same form submitted with the test-mode switch on and nobody signed in.\<close>

definition test_mode_component :: component where
  "test_mode_component = sample_component\<lparr>isTestMode := True, session := None\<rparr>"

section \<open>Stepper form (src/components/booking/BookingForm.jsx)\<close>

text \<open>
  The values the \<open>yup\<close> schema checks. \<open>pickupDateTime\<close> is nullable. The bound of
  \<open>.min(new Date(), ...)\<close> is the instant at which the module built the schema, an
  argument here.
\<close>

record form_values =
  fv_userName :: string
  fv_phoneNumber :: string
  fv_vehicleBrand :: string
  fv_vehicleModel :: string
  fv_vehicleColor :: string
  fv_licensePlate :: string
  fv_pickupAddress :: string
  fv_dropOffAddress :: string
  fv_pickupDateTime :: "int option"

text \<open>\<open>/^\d{10}$/\<close>: exactly ten ASCII digits.\<close>

definition is_digit :: "char \<Rightarrow> bool" where
  "is_digit ch = ((48::nat) \<le> of_char ch \<and> (of_char ch :: nat) \<le> 57)"

definition matches_ten_digits :: "string \<Rightarrow> bool" where
  "matches_ten_digits s = (length s = 10 \<and> list_all is_digit s)"

definition schema_isValid :: "int \<Rightarrow> form_values \<Rightarrow> bool" where
  "schema_isValid schemaBuiltAt v =
     (fv_userName v \<noteq> [] \<and> 2 \<le> length (fv_userName v)
      \<and> matches_ten_digits (fv_phoneNumber v) \<and> fv_phoneNumber v \<noteq> []
      \<and> fv_vehicleBrand v \<noteq> []
      \<and> fv_vehicleModel v \<noteq> []
      \<and> fv_vehicleColor v \<noteq> []
      \<and> fv_licensePlate v \<noteq> [] \<and> 2 \<le> length (fv_licensePlate v)
      \<and> fv_pickupAddress v \<noteq> [] \<and> 5 \<le> length (fv_pickupAddress v)
      \<and> fv_dropOffAddress v \<noteq> [] \<and> 5 \<le> length (fv_dropOffAddress v)
      \<and> (case fv_pickupDateTime v of None \<Rightarrow> False | Some d \<Rightarrow> schemaBuiltAt \<le> d))"

section \<open>Admin query layer (src/hooks/useBookings.js, second module)\<close>

subsection \<open>The hosted store as the admin layer sees it\<close>

record user_row =
  u_id :: nat
  u_email :: string

record service_summary =
  s_id :: nat
  s_name :: string

record booking_row =
  b_id :: nat
  b_status :: string
  b_payment_status :: string
  b_total_cost :: real
  b_pickup_datetime :: int
  b_created_at :: int
  b_user_id :: nat
  b_service_id :: nat

text \<open>
  One element of the \<open>data\<close> array of \<open>getBookings\<close>: the five selected columns and the
  two embedded rows (\<open>null\<close> when the foreign key finds none).
\<close>

record booking_view =
  v_id :: nat
  v_status :: string
  v_payment_status :: string
  v_total_cost :: real
  v_pickup_datetime :: int
  v_user :: "user_row option"
  v_service :: "service_summary option"

text \<open>
  What the logger and the timer see: \<open>LoggerError prefix message\<close>,
  \<open>LoggerWarn message\<close>, and \<open>SetTimeout ms\<close> for the awaited delay.
\<close>

datatype log_entry =
    LoggerError string string
  | LoggerWarn string
  | SetTimeout nat

text \<open>
  The store holds three tables. Transient failures are scripted: each store call takes
  the head of \<open>faults\<close>; \<open>Some m\<close> makes that call answer with an error of message
  \<open>m\<close> and leave the tables alone, \<open>None\<close> or an empty script lets it through.
\<close>

record db =
  users_tbl :: "user_row list"
  services_tbl :: "service_summary list"
  bookings_tbl :: "booking_row list"
  faults :: "string option list"
  journal :: "log_entry list"

text \<open>The \<open>{ data, error, count }\<close> object a store call resolves to.\<close>

record 'a response =
  resp_data :: "'a option"
  resp_error :: "string option"
  resp_count :: "nat option"

definition failure :: "string \<Rightarrow> 'a response" where
  "failure m = \<lparr>resp_data = None, resp_error = Some m, resp_count = None\<rparr>"

definition next_fault :: "db \<Rightarrow> string option \<times> db" where
  "next_fault d = (case faults d of [] \<Rightarrow> (None, d) | f # fs \<Rightarrow> (f, d\<lparr>faults := fs\<rparr>))"

definition record_entry :: "log_entry \<Rightarrow> db \<Rightarrow> db" where
  "record_entry e d = d\<lparr>journal := journal d @ [e]\<rparr>"

text \<open>\<open>.from('users').select('*')\<close>\<close>

definition select_users :: "db \<Rightarrow> user_row list response \<times> db" where
  "select_users d =
     (case next_fault d of
        (Some m, d') \<Rightarrow> (failure m, d')
      | (None, d') \<Rightarrow>
          (\<lparr>resp_data = Some (users_tbl d'), resp_error = None, resp_count = None\<rparr>, d'))"

text \<open>\<open>.order('created_at', { ascending: false })\<close>; rows of equal time keep their order.\<close>

definition order_created_at_desc :: "booking_row list \<Rightarrow> booking_row list" where
  "order_created_at_desc rows = sort_key (\<lambda>r. - b_created_at r) rows"

definition embed :: "db \<Rightarrow> booking_row \<Rightarrow> booking_view" where
  "embed d r =
     \<lparr>v_id = b_id r, v_status = b_status r, v_payment_status = b_payment_status r,
      v_total_cost = b_total_cost r, v_pickup_datetime = b_pickup_datetime r,
      v_user = find (\<lambda>u. u_id u = b_user_id r) (users_tbl d),
      v_service = find (\<lambda>s. s_id s = b_service_id r) (services_tbl d)\<rparr>"

text \<open>
  \<open>.range(lo, hi)\<close> asks for offset \<open>lo\<close> and limit \<open>hi - lo + 1\<close>, both ends
  inclusive. The store refuses a negative offset, a negative limit and an offset beyond
  the number of rows; otherwise it answers with the rows of the window.
\<close>

definition window :: "int \<Rightarrow> int \<Rightarrow> 'a list \<Rightarrow> 'a list" where
  "window lo hi rows = take (nat (hi - lo + 1)) (drop (nat lo) rows)"

text \<open>
  \<open>.from('bookings').select(columns, { count: 'exact' }).order(...).range(lo, hi)\<close>:
  \<open>count\<close> is the number of rows of the table, whatever the window.
\<close>

definition select_bookings :: "int \<Rightarrow> int \<Rightarrow> db \<Rightarrow> booking_view list response \<times> db" where
  "select_bookings lo hi d =
     (case next_fault d of
        (Some m, d') \<Rightarrow> (failure m, d')
      | (None, d') \<Rightarrow>
          if lo < 0 then (failure ''OFFSET must not be negative'', d')
          else if hi - lo + 1 < 0 then (failure ''LIMIT must not be negative'', d')
          else if int (length (bookings_tbl d')) < lo then
            (failure ''Requested range not satisfiable'', d')
          else
            (\<lparr>resp_data = Some (map (embed d') (window lo hi (order_created_at_desc (bookings_tbl d')))),
              resp_error = None,
              resp_count = Some (length (bookings_tbl d'))\<rparr>, d'))"

text \<open>\<open>.from('bookings').insert(bookingData).select()\<close>: the new row comes back.\<close>

definition insert_booking :: "booking_row \<Rightarrow> db \<Rightarrow> booking_row list response \<times> db" where
  "insert_booking bookingData d =
     (case next_fault d of
        (Some m, d') \<Rightarrow> (failure m, d')
      | (None, d') \<Rightarrow>
          (\<lparr>resp_data = Some [bookingData], resp_error = None, resp_count = None\<rparr>,
           d'\<lparr>bookings_tbl := bookings_tbl d' @ [bookingData]\<rparr>))"

text \<open>
  \<open>.from('bookings').update(bookingData).eq('id', id).select()\<close>: the columns named in
  \<open>bookingData\<close> are overwritten in every row of that id (\<open>bookingData\<close> is the function
  doing so), and the rows changed come back.
\<close>

definition update_booking ::
  "nat \<Rightarrow> (booking_row \<Rightarrow> booking_row) \<Rightarrow> db \<Rightarrow> booking_row list response \<times> db" where
  "update_booking i bookingData d =
     (case next_fault d of
        (Some m, d') \<Rightarrow> (failure m, d')
      | (None, d') \<Rightarrow>
          (\<lparr>resp_data = Some (map bookingData (filter (\<lambda>r. b_id r = i) (bookings_tbl d'))),
            resp_error = None, resp_count = None\<rparr>,
           d'\<lparr>bookings_tbl := map (\<lambda>r. if b_id r = i then bookingData r else r) (bookings_tbl d')\<rparr>))"

text \<open>
  \<open>.delete().eq('id', id)\<close>: every row of that id goes; matching no row is no error.
\<close>

definition delete_booking :: "nat \<Rightarrow> db \<Rightarrow> unit response \<times> db" where
  "delete_booking i d =
     (case next_fault d of
        (Some m, d') \<Rightarrow> (failure m, d')
      | (None, d') \<Rightarrow>
          (\<lparr>resp_data = None, resp_error = None, resp_count = None\<rparr>,
           d'\<lparr>bookings_tbl := filter (\<lambda>r. b_id r \<noteq> i) (bookings_tbl d')\<rparr>))"

definition delete_user :: "nat \<Rightarrow> db \<Rightarrow> unit response \<times> db" where
  "delete_user i d =
     (case next_fault d of
        (Some m, d') \<Rightarrow> (failure m, d')
      | (None, d') \<Rightarrow>
          (\<lparr>resp_data = None, resp_error = None, resp_count = None\<rparr>,
           d'\<lparr>users_tbl := filter (\<lambda>u. u_id u \<noteq> i) (users_tbl d')\<rparr>))"

subsection \<open>handleSupabaseError: the bounded retry\<close>

text \<open>How an \<open>async\<close> function ends: with a value, with \<open>undefined\<close>, or rejected.\<close>

datatype 'a completion = Returned 'a | ReturnedUndefined | Thrown js_error

text \<open>Decimal digits of a number, for the template literal \<open>${maxRetries}\<close>.\<close>

function show_nat :: "nat \<Rightarrow> string" where
  "show_nat n =
     (if n < 10 then [char_of (48 + n)] else show_nat (n div 10) @ [char_of (48 + n mod 10)])"
  by pat_completeness auto
termination
  by (relation "measure id") auto

declare show_nat.simps [simp del]

definition maxRetries :: nat where
  "maxRetries = 3"

text \<open>
  \<^verbatim>\<open>
  const handleSupabaseError = async (operation, entityName) => {
    const maxRetries = 3;
    let retries = 0;
    while (retries < maxRetries) {
      try {
        const result = await operation();
        return result;
      } catch (error) {
        logger.error(`Supabase error (${entityName}):`, error);
        retries++;
        if (retries === maxRetries) {
          throw new Error(`Failed after ${maxRetries} attempts: ${error.message}`);
        }
        await new Promise(resolve => setTimeout(resolve, 1000 * retries));
      }
    }
  };
  \<close>
  \<open>retry_loop\<close> is the \<open>while\<close> loop with \<open>retries\<close> as its argument; an operation is a
  function of the store that returns (\<open>Inr\<close>) or throws (\<open>Inl\<close>).
\<close>

function retry_loop ::
  "(db \<Rightarrow> (js_error + 'a) \<times> db) \<Rightarrow> string \<Rightarrow> nat \<Rightarrow> db \<Rightarrow> 'a completion \<times> db" where
  "retry_loop operation entityName retries d =
     (if retries < maxRetries then
        (case operation d of
           (Inr result, d1) \<Rightarrow> (Returned result, d1)
         | (Inl err, d1) \<Rightarrow>
             (let d2 = record_entry
                         (LoggerError (''Supabase error ('' @ entityName @ ''):'') (message err)) d1
              in
              if Suc retries = maxRetries then
                (Thrown (Error (''Failed after '' @ show_nat maxRetries @ '' attempts: ''
                                  @ message err)), d2)
              else
                retry_loop operation entityName (Suc retries)
                  (record_entry (SetTimeout (1000 * Suc retries)) d2)))
      else (ReturnedUndefined, d))"
  by pat_completeness auto
termination
  by (relation "measure (\<lambda>(operation, entityName, retries, d). maxRetries - retries)") auto

declare retry_loop.simps [simp del]

definition handleSupabaseError ::
  "(db \<Rightarrow> (js_error + 'a) \<times> db) \<Rightarrow> string \<Rightarrow> db \<Rightarrow> 'a completion \<times> db" where
  "handleSupabaseError operation entityName d = retry_loop operation entityName 0 d"

subsection \<open>The six operations\<close>

definition getUsers_operation :: "db \<Rightarrow> (js_error + user_row list option) \<times> db" where
  "getUsers_operation d =
     (case select_users d of
        (r, d') \<Rightarrow>
          (case resp_error r of
             Some m \<Rightarrow> (Inl (Error (''Failed to fetch users: '' @ m)), d')
           | None \<Rightarrow> (Inr (resp_data r), d')))"

definition getUsers :: "db \<Rightarrow> user_row list option completion \<times> db" where
  "getUsers = handleSupabaseError getUsers_operation ''users''"

text \<open>
  \<open>Math.ceil(count / limit)\<close> on a row count: a zero limit gives \<open>NaN\<close> or
  \<open>Infinity\<close>, any other limit the ceiling of the quotient.
\<close>

datatype js_number = Num int | NaN | Infinity

definition math_ceil_quotient :: "nat \<Rightarrow> int \<Rightarrow> js_number" where
  "math_ceil_quotient n limit =
     (if limit = 0 then (if n = 0 then NaN else Infinity)
      else Num \<lceil>real n / real_of_int limit\<rceil>)"

text \<open>The object \<open>{ data, count, totalPages }\<close>; \<open>count\<close> is \<open>null\<close> when the store sent none.\<close>

record bookings_page =
  data :: "booking_view list"
  count :: "nat option"
  totalPages :: js_number

definition getBookings_operation :: "int \<Rightarrow> int \<Rightarrow> db \<Rightarrow> (js_error + bookings_page) \<times> db" where
  "getBookings_operation page limit d =
     (let startIndex = (page - 1) * limit in
      case select_bookings startIndex (startIndex + limit - 1) d of
        (r, d') \<Rightarrow>
          (case resp_error r of
             Some m \<Rightarrow>
               (Inl (Error (''Failed to fetch bookings: '' @ m)),
                record_entry (LoggerError ''Error fetching bookings:'' m) d')
           | None \<Rightarrow>
               (case resp_data r of
                  None \<Rightarrow>
                    (Inr \<lparr>data = [], count = Some 0, totalPages = Num 0\<rparr>,
                     record_entry (LoggerWarn ''No bookings data returned from Supabase'') d')
                | Some rows \<Rightarrow>
                    (Inr \<lparr>data = rows, count = resp_count r,
                          totalPages = math_ceil_quotient
                                         (case resp_count r of None \<Rightarrow> 0 | Some n \<Rightarrow> n) limit\<rparr>,
                     d'))))"

text \<open>The defaults \<open>page = 1, limit = 10\<close> of the source are passed explicitly.\<close>

definition getBookings :: "int \<Rightarrow> int \<Rightarrow> db \<Rightarrow> bookings_page completion \<times> db" where
  "getBookings page limit = handleSupabaseError (getBookings_operation page limit) ''bookings''"

text \<open>
  \<open>data[0]\<close>: reading index 0 of \<open>null\<close> throws a \<open>TypeError\<close>, of an empty array gives
  \<open>undefined\<close> (\<open>None\<close>).
\<close>

definition first_row :: "'a list option \<Rightarrow> js_error + 'a option" where
  "first_row rows =
     (case rows of
        None \<Rightarrow> Inl (TypeError ''Cannot read properties of null (reading '0')'')
      | Some [] \<Rightarrow> Inr None
      | Some (x # _) \<Rightarrow> Inr (Some x))"

definition createBooking_operation :: "booking_row \<Rightarrow> db \<Rightarrow> (js_error + booking_row option) \<times> db" where
  "createBooking_operation bookingData d =
     (case insert_booking bookingData d of
        (r, d') \<Rightarrow>
          (case resp_error r of
             Some m \<Rightarrow> (Inl (Error (''Failed to create booking: '' @ m)), d')
           | None \<Rightarrow> (first_row (resp_data r), d')))"

definition createBooking :: "booking_row \<Rightarrow> db \<Rightarrow> booking_row option completion \<times> db" where
  "createBooking bookingData = handleSupabaseError (createBooking_operation bookingData) ''bookings''"

definition updateBooking_operation ::
  "nat \<Rightarrow> (booking_row \<Rightarrow> booking_row) \<Rightarrow> db \<Rightarrow> (js_error + booking_row option) \<times> db" where
  "updateBooking_operation i bookingData d =
     (case update_booking i bookingData d of
        (r, d') \<Rightarrow>
          (case resp_error r of
             Some m \<Rightarrow> (Inl (Error (''Failed to update booking: '' @ m)), d')
           | None \<Rightarrow> (first_row (resp_data r), d')))"

definition updateBooking ::
  "nat \<Rightarrow> (booking_row \<Rightarrow> booking_row) \<Rightarrow> db \<Rightarrow> booking_row option completion \<times> db" where
  "updateBooking i bookingData = handleSupabaseError (updateBooking_operation i bookingData) ''bookings''"

text \<open>The object \<open>{ success: true }\<close>.\<close>

record delete_result =
  success :: bool

definition deleteBooking_operation :: "nat \<Rightarrow> db \<Rightarrow> (js_error + delete_result) \<times> db" where
  "deleteBooking_operation i d =
     (case delete_booking i d of
        (r, d') \<Rightarrow>
          (case resp_error r of
             Some m \<Rightarrow> (Inl (Error (''Failed to delete booking: '' @ m)), d')
           | None \<Rightarrow> (Inr \<lparr>success = True\<rparr>, d')))"

definition deleteBooking :: "nat \<Rightarrow> db \<Rightarrow> delete_result completion \<times> db" where
  "deleteBooking i = handleSupabaseError (deleteBooking_operation i) ''bookings''"

definition deleteUser_operation :: "nat \<Rightarrow> db \<Rightarrow> (js_error + delete_result) \<times> db" where
  "deleteUser_operation i d =
     (case delete_user i d of
        (r, d') \<Rightarrow>
          (case resp_error r of
             Some m \<Rightarrow> (Inl (Error (''Failed to delete user: '' @ m)), d')
           | None \<Rightarrow> (Inr \<lparr>success = True\<rparr>, d')))"

definition deleteUser :: "nat \<Rightarrow> db \<Rightarrow> delete_result completion \<times> db" where
  "deleteUser i = handleSupabaseError (deleteUser_operation i) ''users''"

subsection \<open>A concrete store\<close>

definition booking_at :: "nat \<Rightarrow> int \<Rightarrow> booking_row" where
  "booking_at i created =
     \<lparr>b_id = i, b_status = ''pending'', b_payment_status = ''unpaid'', b_total_cost = 90,
      b_pickup_datetime = 9000, b_created_at = created, b_user_id = 1, b_service_id = 7\<rparr>"

text \<open>Three bookings, inserted out of chronological order, of one user and one service.\<close>

definition sample_db :: db where
  "sample_db =
     \<lparr>users_tbl = [\<lparr>u_id = 1, u_email = ''ana@example.com''\<rparr>],
      services_tbl = [\<lparr>s_id = 7, s_name = ''Tow''\<rparr>],
      bookings_tbl = [booking_at 1 100, booking_at 2 300, booking_at 3 200],
      faults = [], journal = []\<rparr>"

text \<open>The same store when its next two, respectively three, calls fail.\<close>

definition fails_twice :: db where
  "fails_twice = sample_db\<lparr>faults := [Some ''connection reset'', Some ''timeout'']\<rparr>"

definition fails_thrice :: db where
  "fails_thrice =
     sample_db\<lparr>faults := [Some ''connection reset'', Some ''timeout'', Some ''bad gateway'']\<rparr>"

section \<open>Helper facts\<close>

lemmas flow_defs = handleBookingProcess_def validateForm_def Let_def emit_def booking_failed_def
  new_effects_def new_services_def new_bookings_def status_of_def

lemmas sample_defs = sample_component_def sample_answers_def empty_world_def payment_declined_def
  notification_down_def test_mode_component_def generateTestData_def

lemmas sample_db_defs = sample_db_def fails_twice_def fails_thrice_def booking_at_def

lemma calculateTotalCost_unmapped:
  "getTowTruckPricing (getTowTruckType (vehicleSize (formData c))) = None \<Longrightarrow>
   \<exists>m. calculateTotalCost getTowTruckType getTowTruckPricing c = Inl (TypeError m)"
  by (simp add: calculateTotalCost_def)

text \<open>A run never removes or rewrites what the store and the effect log already hold.\<close>

lemma handleBookingProcess_appends:
  "\<exists>ss bs es. services (snd (handleBookingProcess c a w)) = services w @ ss
     \<and> bookings (snd (handleBookingProcess c a w)) = bookings w @ bs
     \<and> effects (snd (handleBookingProcess c a w)) = effects w @ es"
  by (auto simp: handleBookingProcess_def Let_def emit_def booking_failed_def
      split: option.splits sum.splits prod.splits)

text \<open>The page accepts every form.\<close>

lemma validateForm_always: "validateForm c"
  by (simp add: validateForm_def)

text \<open>The schema of the stepper form does refuse a pickup time before its bound.\<close>

lemma schema_rejects_early_pickup:
  "fv_pickupDateTime v = Some d \<Longrightarrow> d < schemaBuiltAt \<Longrightarrow> \<not> schema_isValid schemaBuiltAt v"
  by (simp add: schema_isValid_def)

lemma show_nat_maxRetries: "show_nat maxRetries = ''3''"
  by code_simp

text \<open>One turn of the retry loop, by what the operation did.\<close>

lemma retry_loop_success:
  "retries < maxRetries \<Longrightarrow> operation d = (Inr r, d1) \<Longrightarrow>
   retry_loop operation entityName retries d = (Returned r, d1)"
  by (subst retry_loop.simps) simp

lemma retry_loop_again:
  "Suc retries < maxRetries \<Longrightarrow> operation d = (Inl e, d1) \<Longrightarrow>
   retry_loop operation entityName retries d =
     retry_loop operation entityName (Suc retries)
       (record_entry (SetTimeout (1000 * Suc retries))
          (record_entry (LoggerError (''Supabase error ('' @ entityName @ ''):'') (message e)) d1))"
  by (subst retry_loop.simps) (simp add: Let_def)

lemma retry_loop_exhausted:
  "Suc retries = maxRetries \<Longrightarrow> operation d = (Inl e, d1) \<Longrightarrow>
   retry_loop operation entityName retries d =
     (Thrown (Error (''Failed after 3 attempts: '' @ message e)),
      record_entry (LoggerError (''Supabase error ('' @ entityName @ ''):'') (message e)) d1)"
  by (subst retry_loop.simps) (simp add: Let_def show_nat_maxRetries)

lemma handleSupabaseError_first_try:
  assumes "operation d = (Inr r, d1)"
  shows "handleSupabaseError operation entityName d = (Returned r, d1)"
  unfolding handleSupabaseError_def
  by (rule retry_loop_success) (simp_all add: maxRetries_def assms)

text \<open>The loop body once more, as a single equation for the attempts that may still run.\<close>

lemma retry_loop_unfold:
  "retries < maxRetries \<Longrightarrow>
   retry_loop operation entityName retries d =
     (case operation d of
        (Inr result, d1) \<Rightarrow> (Returned result, d1)
      | (Inl err, d1) \<Rightarrow>
          (if Suc retries = maxRetries then
             (Thrown (Error (''Failed after 3 attempts: '' @ message err)),
              record_entry (LoggerError (''Supabase error ('' @ entityName @ ''):'') (message err)) d1)
           else
             retry_loop operation entityName (Suc retries)
               (record_entry (SetTimeout (1000 * Suc retries))
                  (record_entry (LoggerError (''Supabase error ('' @ entityName @ ''):'') (message err))
                     d1))))"
  by (subst retry_loop.simps) (simp add: Let_def show_nat_maxRetries split: prod.splits sum.splits)

lemmas retry_defs = handleSupabaseError_def retry_loop_unfold maxRetries_def next_fault_def
  failure_def record_entry_def

text \<open>A store call that is not faulted finds the script empty or headed by \<open>None\<close>.\<close>

lemma third_call_answers:
  assumes "fst (next_fault (d\<lparr>faults := fs\<rparr>)) = None"
  shows "fs = [] \<or> (\<exists>fs'. fs = None # fs')"
  using assms by (cases fs) (simp_all add: next_fault_def)

text \<open>
  The wrapper for any operation: two failures and a success return the result of the
  third attempt; three failures throw, reporting 3 attempts and the last message. The
  second attempt starts after a wait of 1000 ms, the third after 2000 ms.
\<close>

lemma handleSupabaseError_three_attempts:
  "(operation d = (Inl ea, da)
      \<and> operation (record_entry (SetTimeout 1000)
           (record_entry (LoggerError (''Supabase error ('' @ entityName @ ''):'') (message ea)) da))
          = (Inl eb, db)
      \<and> operation (record_entry (SetTimeout 2000)
           (record_entry (LoggerError (''Supabase error ('' @ entityName @ ''):'') (message eb)) db))
          = (Inr r, dc)
      \<longrightarrow> handleSupabaseError operation entityName d = (Returned r, dc))
   \<and> (operation' d' = (Inl ea', da')
      \<and> operation' (record_entry (SetTimeout 1000)
           (record_entry (LoggerError (''Supabase error ('' @ entityName' @ ''):'') (message ea')) da'))
          = (Inl eb', db')
      \<and> operation' (record_entry (SetTimeout 2000)
           (record_entry (LoggerError (''Supabase error ('' @ entityName' @ ''):'') (message eb')) db'))
          = (Inl ec', dc')
      \<longrightarrow> handleSupabaseError operation' entityName' d' =
            (Thrown (Error (''Failed after 3 attempts: '' @ message ec')),
             record_entry (LoggerError (''Supabase error ('' @ entityName' @ ''):'') (message ec')) dc'))"
  by (simp add: handleSupabaseError_def retry_loop_again retry_loop_success retry_loop_exhausted
      maxRetries_def)

text \<open>Taking the next scripted fault touches neither the tables nor the journal.\<close>

lemma next_fault_tables [simp]:
  "users_tbl (snd (next_fault d)) = users_tbl d"
  "services_tbl (snd (next_fault d)) = services_tbl d"
  "bookings_tbl (snd (next_fault d)) = bookings_tbl d"
  "journal (snd (next_fault d)) = journal d"
  by (simp_all add: next_fault_def split: list.splits)

lemma embed_next_fault [simp]: "embed (snd (next_fault d)) = embed d"
  by (rule ext) (simp add: embed_def)

lemma next_fault_keeps:
  assumes "next_fault d = (f, d')"
  shows "users_tbl d' = users_tbl d" and "services_tbl d' = services_tbl d"
    and "bookings_tbl d' = bookings_tbl d" and "journal d' = journal d"
    and "embed d' = embed d"
  using next_fault_tables [of d] embed_next_fault [of d] assms by simp_all

text \<open>Any window of the ordered table is ordered by creation time, latest first.\<close>

lemma window_sorted:
  "sorted_wrt (\<lambda>r s. b_created_at s \<le> b_created_at r) (window lo hi (order_created_at_desc rows))"
proof -
  have "sorted (map (\<lambda>r. - b_created_at r) (order_created_at_desc rows))"
    by (simp add: order_created_at_desc_def)
  then have "sorted_wrt (\<lambda>r s. b_created_at s \<le> b_created_at r) (order_created_at_desc rows)"
    by (simp add: sorted_map)
  then show ?thesis
    unfolding window_def by (intro sorted_wrt_take sorted_wrt_drop)
qed

lemma getBookings_operation_ok:
  assumes "fst (next_fault d) = None" and "0 \<le> lo" and "0 \<le> limit"
    and "lo = (page - 1) * limit"
    and "lo \<le> int (length (bookings_tbl d))"
  shows "getBookings_operation page limit d =
     (Inr \<lparr>data = map (embed d) (window lo (lo + limit - 1) (order_created_at_desc (bookings_tbl d))),
           count = Some (length (bookings_tbl d)),
           totalPages = math_ceil_quotient (length (bookings_tbl d)) limit\<rparr>,
      snd (next_fault d))"
proof -
  obtain d' where nf: "next_fault d = (None, d')"
    using assms(1) by (cases "next_fault d") simp
  show ?thesis
    using assms(2-5)
    by (simp add: getBookings_operation_def select_bookings_def Let_def nf next_fault_keeps [OF nf])
qed

section \<open>The pricing calculator\<close>

text \<open>
  Claim C1. For every vehicle size and every route distance, the computed total cost is
  basePrice + distance * perKm * 2, where basePrice and perKm are the rate-table entries
  of the tow-truck category resolved from the vehicle size (a function of the size
  alone). The witness is the spec's example: size "Medium", category "Standard"
  (basePrice 50, perKm 2), distance 10, total 90.
\<close>

theorem C1_total_cost_formula:
  assumes "getTowTruckPricing (getTowTruckType (vehicleSize (formData c))) = Some p"
  shows "calculateTotalCost getTowTruckType getTowTruckPricing c
           = Inr (basePrice p + distance c * perKm p * 2)"
  using assms by (simp add: calculateTotalCost_def)

theorem C1_total_cost_formula_witness:
  "vehicleSize (formData sample_component) = ''Medium'' \<and> distance sample_component = 10
   \<and> spec_getTowTruckType ''Medium'' = Some ''Standard''
   \<and> spec_getTowTruckPricing (spec_getTowTruckType (vehicleSize (formData sample_component)))
       = Some \<lparr>perKm = 2, basePrice = 50\<rparr>
   \<and> calculateTotalCost spec_getTowTruckType spec_getTowTruckPricing sample_component = Inr 90"
proof -
  have v: "vehicleSize (formData sample_component) = ''Medium''"
    and k: "distance sample_component = 10"
    by (simp_all add: sample_component_def generateTestData_def)
  have t: "spec_getTowTruckType ''Medium'' = Some ''Standard''"
    by (simp add: spec_getTowTruckType_def)
  have h: "spec_getTowTruckPricing (spec_getTowTruckType (vehicleSize (formData sample_component)))
             = Some \<lparr>perKm = 2, basePrice = 50\<rparr>"
    by (simp add: v t spec_getTowTruckPricing_def)
  from C1_total_cost_formula
         [where getTowTruckPricing = spec_getTowTruckPricing
            and getTowTruckType = spec_getTowTruckType and c = sample_component
            and p = "\<lparr>perKm = 2, basePrice = 50\<rparr>", OF h]
  show ?thesis
    using v k t h by simp
qed

section \<open>The submit flow\<close>

text \<open>
  Claim C2. Whenever the Payment Gateway rejects the confirmation (the flow has reached
  \<open>stripe.confirmPayment\<close> and it answers with an error), the submission fails with
  that error's message, and no Service row and no Booking row is created: both tables
  are as before. The run did nothing but set the loading flag, call the gateway, log
  the error, show the failure toast and clear the flag.
\<close>

theorem C2_payment_rejection_creates_no_rows:
  assumes "session c \<noteq> None \<or> isTestMode c" and "stripe c" and "elements c"
    and "confirmPayment_error a = Some m"
  shows "fst (handleBookingProcess c a w) = Failed m
       \<and> services (snd (handleBookingProcess c a w)) = services w
       \<and> bookings (snd (handleBookingProcess c a w)) = bookings w
       \<and> new_effects w (snd (handleBookingProcess c a w)) =
           [SetIsLoading True, ConfirmPayment, ConsoleError m,
            Toast ''Booking Failed'' (if m = [] then ''An unexpected error occurred'' else m) ''error'',
            SetIsLoading False]"
  using assms
  by (auto simp: flow_defs)

theorem C2_payment_rejection_creates_no_rows_witness:
  "session sample_component = Some ''user-1''
   \<and> stripe sample_component \<and> elements sample_component
   \<and> confirmPayment_error payment_declined = Some ''Your card was declined.''
   \<and> handleBookingProcess sample_component payment_declined empty_world =
       (Failed ''Your card was declined.'',
        \<lparr>services = [], bookings = [],
         effects = [SetIsLoading True, ConfirmPayment, ConsoleError ''Your card was declined.'',
                    Toast ''Booking Failed'' ''Your card was declined.'' ''error'',
                    SetIsLoading False]\<rparr>)"
proof -
  have h0: "session sample_component = Some ''user-1''"
    and h2: "stripe sample_component" and h3: "elements sample_component"
    by (simp_all add: sample_component_def)
  have h1: "session sample_component \<noteq> None \<or> isTestMode sample_component"
    using h0 by simp
  have h4: "confirmPayment_error payment_declined = Some ''Your card was declined.''"
    by (simp add: payment_declined_def)
  from C2_payment_rejection_creates_no_rows [OF h1 h2 h3 h4, of empty_world] h0 h2 h3 h4
  show ?thesis
    by (cases "handleBookingProcess sample_component payment_declined empty_world")
      (simp add: empty_world_def new_effects_def)
qed

text \<open>
  Claim C3, as amended. When the Service row and the Booking row have been created and
  \<open>sendAdminNotification\<close> then rejects, the two rows are not reverted: both stay in the
  store, and the error is logged. The flow does not reach Confirmed, though: the
  rejection is caught like any other error, so the run ends with the "Booking Failed"
  toast showing the error's message, without the success toast and without navigating
  to the confirmation page.
\<close>

theorem C3_notification_failure_keeps_rows_reports_failure:
  assumes "session c \<noteq> None \<or> isTestMode c" and "stripe c" and "elements c"
    and "confirmPayment_error a = None"
    and "services_insert a = Inr (sid, snum)"
    and "bookings_insert_error a = None"
    and "sendAdminNotification_error a = Some m"
  shows "fst (handleBookingProcess c a w) = Failed m
       \<and> services (snd (handleBookingProcess c a w)) =
           services w @ [\<lparr>srv_id = sid, srv_service_number = snum, srv_user_id = user_id_of c,
                          srv_dynamic_key = uuidv4 a, srv_status = status_of c\<rparr>]
       \<and> map bk_serviceId (new_bookings w (snd (handleBookingProcess c a w))) = [sid]
       \<and> length (bookings (snd (handleBookingProcess c a w))) = Suc (length (bookings w))
       \<and> new_effects w (snd (handleBookingProcess c a w)) =
           [SetIsLoading True, ConfirmPayment, ServicesInsert, BookingsInsert,
            SendAdminNotification, ConsoleError m,
            Toast ''Booking Failed'' (if m = [] then ''An unexpected error occurred'' else m) ''error'',
            SetIsLoading False]"
  using assms
  by (auto simp: flow_defs)

theorem C3_notification_failure_keeps_rows_reports_failure_witness:
  "session sample_component = Some ''user-1''
   \<and> stripe sample_component \<and> elements sample_component
   \<and> confirmPayment_error notification_down = None
   \<and> services_insert notification_down = Inr (7, ''SN-0007'')
   \<and> bookings_insert_error notification_down = None
   \<and> sendAdminNotification_error notification_down = Some ''Failed to send admin notification''
   \<and> fst (handleBookingProcess sample_component notification_down empty_world)
        = Failed ''Failed to send admin notification''
   \<and> services (snd (handleBookingProcess sample_component notification_down empty_world)) =
        [\<lparr>srv_id = 7, srv_service_number = ''SN-0007'', srv_user_id = ''user-1'',
          srv_dynamic_key = ''key-1'', srv_status = ''pending''\<rparr>]
   \<and> length (bookings (snd (handleBookingProcess sample_component notification_down empty_world))) = 1"
proof -
  have h0: "session sample_component = Some ''user-1''"
    and h2: "stripe sample_component" and h3: "elements sample_component"
    by (simp_all add: sample_component_def)
  have h1: "session sample_component \<noteq> None \<or> isTestMode sample_component"
    using h0 by simp
  have h4: "confirmPayment_error notification_down = None"
    and h5: "services_insert notification_down = Inr (7, ''SN-0007'')"
    and h6: "bookings_insert_error notification_down = None"
    and h7: "sendAdminNotification_error notification_down = Some ''Failed to send admin notification''"
    by (simp_all add: notification_down_def sample_answers_def)
  have u: "user_id_of sample_component = ''user-1''" "status_of sample_component = ''pending''"
    "uuidv4 notification_down = ''key-1''"
    by (simp_all add: user_id_of_def status_of_def sample_component_def notification_down_def
        sample_answers_def)
  from C3_notification_failure_keeps_rows_reports_failure
         [OF h1 h2 h3 h4 h5 h6 h7, of empty_world] h0 h2 h3 h4 h5 h6 h7
  show ?thesis
    by (simp add: u empty_world_def)
qed

text \<open>
  Claim C3 as stated fails: in this run both rows are created (the services insert
  issued id 7, the bookings insert reported no error), the notification rejects, and
  the outcome is Failed; the effects end with the error log and the "Booking Failed"
  toast, and hold neither a success toast nor the navigation to \<open>/confirmation\<close>.
\<close>

theorem C3_notification_failure_blocks_success_counterexample:
  "services_insert notification_down = Inr (7, ''SN-0007'')
   \<and> bookings_insert_error notification_down = None
   \<and> sendAdminNotification_error notification_down = Some ''Failed to send admin notification''
   \<and> fst (handleBookingProcess sample_component notification_down empty_world)
        = Failed ''Failed to send admin notification''
   \<and> map srv_id (services (snd (handleBookingProcess sample_component notification_down empty_world))) = [7]
   \<and> map bk_serviceId (bookings (snd (handleBookingProcess sample_component notification_down empty_world))) = [7]
   \<and> effects (snd (handleBookingProcess sample_component notification_down empty_world)) =
       [SetIsLoading True, ConfirmPayment, ServicesInsert, BookingsInsert, SendAdminNotification,
        ConsoleError ''Failed to send admin notification'',
        Toast ''Booking Failed'' ''Failed to send admin notification'' ''error'',
        SetIsLoading False]"
  by (simp add: flow_defs sample_defs)

text \<open>
  Claim C4, as amended. With the test-mode flag set, authentication is bypassed: the
  flow never redirects to the login page, signed in or not. Every Service row and every
  Booking row the submission creates carries status \<open>test_mode\<close>. Payment confirmation
  is not bypassed: as soon as the Stripe objects are loaded, \<open>stripe.confirmPayment\<close>
  is called, exactly as without the flag.
\<close>

theorem C4_test_mode_bypasses_login_not_payment:
  assumes "isTestMode c"
  shows "fst (handleBookingProcess c a w) \<noteq> RedirectedToLogin
       \<and> Navigate ''/login'' \<notin> set (new_effects w (snd (handleBookingProcess c a w)))
       \<and> (\<forall>s \<in> set (new_services w (snd (handleBookingProcess c a w))). srv_status s = ''test_mode'')
       \<and> (\<forall>b \<in> set (new_bookings w (snd (handleBookingProcess c a w))). bk_status b = ''test_mode'')
       \<and> (stripe c \<and> elements c \<longrightarrow>
            ConfirmPayment \<in> set (new_effects w (snd (handleBookingProcess c a w))))"
  using assms
  by (auto simp: flow_defs success_toast_def split: option.splits sum.splits prod.splits)

theorem C4_test_mode_bypasses_login_not_payment_witness:
  "isTestMode test_mode_component \<and> session test_mode_component = None
   \<and> stripe test_mode_component \<and> elements test_mode_component
   \<and> map srv_status (new_services empty_world
        (snd (handleBookingProcess test_mode_component sample_answers empty_world))) = [''test_mode'']
   \<and> map bk_status (new_bookings empty_world
        (snd (handleBookingProcess test_mode_component sample_answers empty_world))) = [''test_mode'']
   \<and> fst (handleBookingProcess test_mode_component sample_answers empty_world) \<noteq> RedirectedToLogin
   \<and> Navigate ''/login'' \<notin> set (new_effects empty_world
        (snd (handleBookingProcess test_mode_component sample_answers empty_world)))
   \<and> ConfirmPayment \<in> set (new_effects empty_world
        (snd (handleBookingProcess test_mode_component sample_answers empty_world)))"
proof -
  have h: "isTestMode test_mode_component"
    and s: "session test_mode_component = None"
    and se: "stripe test_mode_component \<and> elements test_mode_component"
    by (simp_all add: test_mode_component_def sample_component_def)
  have rows: "map srv_status (new_services empty_world
        (snd (handleBookingProcess test_mode_component sample_answers empty_world))) = [''test_mode'']"
    "map bk_status (new_bookings empty_world
        (snd (handleBookingProcess test_mode_component sample_answers empty_world))) = [''test_mode'']"
    by (simp_all add: flow_defs sample_defs success_toast_def)
  from C4_test_mode_bypasses_login_not_payment [OF h, of sample_answers empty_world] h s se rows
  show ?thesis by simp
qed

text \<open>
  Claim C4 as stated fails: a test-mode submission with nobody signed in goes through
  \<open>stripe.confirmPayment\<close> before the two inserts.
\<close>

theorem C4_test_mode_calls_confirmPayment_counterexample:
  "isTestMode test_mode_component
   \<and> effects (snd (handleBookingProcess test_mode_component sample_answers empty_world)) =
       [SetIsLoading True, ConfirmPayment, ServicesInsert, BookingsInsert, SendAdminNotification,
        Toast ''Test Booking Successful''
          ''Your tow service has been test booked successfully. Service number: SN-0007'' ''success'',
        Navigate ''/confirmation'', SetIsLoading False]"
  by (simp add: flow_defs sample_defs success_toast_def)

text \<open>
  Claim C5 says that a submission whose pickup time is in the past fails validation
  before any network call. The page does not do so: \<open>validateForm\<close> returns true for
  every form. Here the pickup instant (1000) lies before the submission (5000), the form
  passes, all four network calls are made in order and the booking is confirmed.
\<close>

theorem C5_past_pickup_reaches_network_calls:
  "pickupDateTime (formData sample_component) < now sample_answers
   \<and> validateForm sample_component
   \<and> fst (handleBookingProcess sample_component sample_answers empty_world) =
       Confirmed \<lparr>bk_form = generateTestData 1000, bk_distance = 10, bk_totalCost = 90,
                  bk_towTruckType = ''Standard'', bk_status = ''pending'', bk_serviceId = 7,
                  bk_serviceNumber = ''SN-0007'', bk_dynamicKey = ''key-1'', bk_createdAt = 5000,
                  bk_isTestMode = False\<rparr>
   \<and> filter is_network_call
        (effects (snd (handleBookingProcess sample_component sample_answers empty_world)))
       = [ConfirmPayment, ServicesInsert, BookingsInsert, SendAdminNotification]"
proof -
  have "pickupDateTime (formData sample_component) < now sample_answers"
    by (simp add: sample_component_def sample_answers_def generateTestData_def)
  then show ?thesis
    by (simp add: flow_defs sample_component_def sample_answers_def empty_world_def
        success_toast_def)
qed

theorem C5_past_pickup_reaches_network_calls_witness:
  "pickupDateTime (formData sample_component) = 1000 \<and> now sample_answers = 5000
   \<and> ConfirmPayment
        \<in> set (effects (snd (handleBookingProcess sample_component sample_answers empty_world)))"
proof -
  let ?es = "effects (snd (handleBookingProcess sample_component sample_answers empty_world))"
  have t: "pickupDateTime (formData sample_component) = 1000" "now sample_answers = 5000"
    by (simp_all add: sample_component_def sample_answers_def generateTestData_def)
  from C5_past_pickup_reaches_network_calls
  have "filter is_network_call ?es
          = [ConfirmPayment, ServicesInsert, BookingsInsert, SendAdminNotification]"
    by simp
  then have "ConfirmPayment \<in> set (filter is_network_call ?es)"
    by simp
  then show ?thesis
    using t by simp
qed

text \<open>
  Claim C8. Every successful submission creates exactly one Service row and exactly one
  Booking row, the Booking row carrying the identifier of that Service row, and calls
  the Payment Gateway once; no submission, successful or not, calls it more than once.
\<close>

theorem C8_one_service_one_booking_one_charge:
  "count_list (new_effects w (snd (handleBookingProcess c a w))) ConfirmPayment \<le> 1
   \<and> (fst (handleBookingProcess c a w) = Confirmed b \<longrightarrow>
        length (new_services w (snd (handleBookingProcess c a w))) = 1
      \<and> services (snd (handleBookingProcess c a w))
          = services w @ new_services w (snd (handleBookingProcess c a w))
      \<and> new_bookings w (snd (handleBookingProcess c a w)) = [b]
      \<and> bookings (snd (handleBookingProcess c a w)) = bookings w @ [b]
      \<and> map srv_id (new_services w (snd (handleBookingProcess c a w))) = [bk_serviceId b]
      \<and> count_list (new_effects w (snd (handleBookingProcess c a w))) ConfirmPayment = 1)"
  by (auto simp: flow_defs success_toast_def split: option.splits sum.splits prod.splits)

theorem C8_one_service_one_booking_one_charge_witness:
  "fst (handleBookingProcess sample_component sample_answers empty_world) =
     Confirmed \<lparr>bk_form = generateTestData 1000, bk_distance = 10, bk_totalCost = 90,
                bk_towTruckType = ''Standard'', bk_status = ''pending'', bk_serviceId = 7,
                bk_serviceNumber = ''SN-0007'', bk_dynamicKey = ''key-1'', bk_createdAt = 5000,
                bk_isTestMode = False\<rparr>
   \<and> length (services (snd (handleBookingProcess sample_component sample_answers empty_world))) = 1
   \<and> length (bookings (snd (handleBookingProcess sample_component sample_answers empty_world))) = 1
   \<and> map srv_id (services (snd (handleBookingProcess sample_component sample_answers empty_world)))
       = [7]
   \<and> map bk_serviceId (bookings (snd (handleBookingProcess sample_component sample_answers empty_world)))
       = [7]
   \<and> count_list (effects (snd (handleBookingProcess sample_component sample_answers empty_world)))
       ConfirmPayment = 1"
proof -
  let ?b = "\<lparr>bk_form = generateTestData 1000, bk_distance = 10, bk_totalCost = 90,
             bk_towTruckType = ''Standard'', bk_status = ''pending'', bk_serviceId = 7,
             bk_serviceNumber = ''SN-0007'', bk_dynamicKey = ''key-1'', bk_createdAt = 5000,
             bk_isTestMode = False\<rparr>"
  have h: "fst (handleBookingProcess sample_component sample_answers empty_world) = Confirmed ?b"
    by (simp add: handleBookingProcess_def validateForm_def Let_def status_of_def
        sample_component_def sample_answers_def)
  from C8_one_service_one_booking_one_charge [of empty_world sample_component sample_answers ?b] h
  show ?thesis
    by (simp add: new_services_def new_bookings_def new_effects_def empty_world_def)
qed

text \<open>
  Claim C9. Within one submission attempt, every Service row and every Booking row it
  creates carries the one idempotency token generated for the attempt (\<open>uuidv4()\<close>,
  called once) and the same status: \<open>test_mode\<close> when the test-mode flag is set,
  \<open>pending\<close> otherwise.
\<close>

theorem C9_rows_share_key_and_status:
  "(\<forall>s \<in> set (new_services w (snd (handleBookingProcess c a w))).
       srv_dynamic_key s = uuidv4 a
     \<and> srv_status s = (if isTestMode c then ''test_mode'' else ''pending''))
   \<and> (\<forall>b \<in> set (new_bookings w (snd (handleBookingProcess c a w))).
       bk_dynamicKey b = uuidv4 a
     \<and> bk_status b = (if isTestMode c then ''test_mode'' else ''pending''))"
  by (auto simp: flow_defs success_toast_def split: option.splits sum.splits prod.splits)

theorem C9_rows_share_key_and_status_witness:
  "isTestMode test_mode_component \<and> uuidv4 sample_answers = ''key-1''
   \<and> length (new_services empty_world
         (snd (handleBookingProcess test_mode_component sample_answers empty_world))) = 1
   \<and> length (new_bookings empty_world
         (snd (handleBookingProcess test_mode_component sample_answers empty_world))) = 1
   \<and> map srv_dynamic_key (new_services empty_world
         (snd (handleBookingProcess test_mode_component sample_answers empty_world))) = [''key-1'']
   \<and> map srv_status (new_services empty_world
         (snd (handleBookingProcess test_mode_component sample_answers empty_world))) = [''test_mode'']
   \<and> map bk_dynamicKey (new_bookings empty_world
         (snd (handleBookingProcess test_mode_component sample_answers empty_world))) = [''key-1'']
   \<and> map bk_status (new_bookings empty_world
         (snd (handleBookingProcess test_mode_component sample_answers empty_world))) = [''test_mode'']"
proof -
  let ?w = "snd (handleBookingProcess test_mode_component sample_answers empty_world)"
  have k: "isTestMode test_mode_component" "uuidv4 sample_answers = ''key-1''"
    by (simp_all add: sample_answers_def test_mode_component_def)
  have "length (new_services empty_world ?w) = 1"
    by (simp add: flow_defs sample_defs)
  then obtain s where ns: "new_services empty_world ?w = [s]"
    by (cases "new_services empty_world ?w") simp_all
  have "length (new_bookings empty_world ?w) = 1"
    by (simp add: flow_defs sample_defs)
  then obtain b where nb: "new_bookings empty_world ?w = [b]"
    by (cases "new_bookings empty_world ?w") simp_all
  from C9_rows_share_key_and_status [of empty_world test_mode_component sample_answers]
  show ?thesis
    by (simp add: ns nb k)
qed

section \<open>The admin query layer\<close>

text \<open>
  Claim C6. For each of the six admin operations (\<open>getUsers\<close>, \<open>getBookings\<close>,
  \<open>createBooking\<close>, \<open>updateBooking\<close>, \<open>deleteBooking\<close>, \<open>deleteUser\<close>): when the
  store call fails at the first two attempts and goes through at the third, the
  operation returns the successful result of that third call (the users, the page, the
  new row, the updated row, \<open>{ success: true }\<close>), and the store holds what that call
  wrote. When the store call fails at all three attempts, the operation throws an error
  that reports 3 attempts and the message of the last failure, and the tables are
  untouched. In both cases the journal shows the backoff: after the first failure a
  wait of 1000 ms, after the second one of 2000 ms (attempt number times one second),
  and no wait after the third.
\<close>

theorem C6_retry_policy:
  assumes "faults d = Some ma # Some mb # fs"
    and "fst (next_fault (d\<lparr>faults := fs\<rparr>)) = None"
    and "faults d' = Some na # Some nb # Some nc # gs"
  shows "getUsers d =
       (Returned (Some (users_tbl d)),
        d\<lparr>faults := tl fs,
          journal := journal d @
            [LoggerError ''Supabase error (users):'' (''Failed to fetch users: '' @ ma),
             SetTimeout 1000,
             LoggerError ''Supabase error (users):'' (''Failed to fetch users: '' @ mb),
             SetTimeout 2000]\<rparr>)
   \<and> (1 \<le> page \<and> 1 \<le> limit \<and> (page - 1) * limit \<le> int (length (bookings_tbl d)) \<longrightarrow>
     getBookings page limit d =
       (Returned \<lparr>data = map (embed d)
                    (window ((page - 1) * limit) ((page - 1) * limit + limit - 1)
                       (order_created_at_desc (bookings_tbl d))),
                 count = Some (length (bookings_tbl d)),
                 totalPages = Num \<lceil>real (length (bookings_tbl d)) / real_of_int limit\<rceil>\<rparr>,
        d\<lparr>faults := tl fs,
          journal := journal d @
            [LoggerError ''Error fetching bookings:'' ma,
             LoggerError ''Supabase error (bookings):'' (''Failed to fetch bookings: '' @ ma),
             SetTimeout 1000,
             LoggerError ''Error fetching bookings:'' mb,
             LoggerError ''Supabase error (bookings):'' (''Failed to fetch bookings: '' @ mb),
             SetTimeout 2000]\<rparr>))
   \<and> createBooking bookingData d =
       (Returned (Some bookingData),
        d\<lparr>bookings_tbl := bookings_tbl d @ [bookingData],
         faults := tl fs,
          journal := journal d @
            [LoggerError ''Supabase error (bookings):'' (''Failed to create booking: '' @ ma),
             SetTimeout 1000,
             LoggerError ''Supabase error (bookings):'' (''Failed to create booking: '' @ mb),
             SetTimeout 2000]\<rparr>)
   \<and> updateBooking i patch d =
       (Returned (case filter (\<lambda>r. b_id r = i) (bookings_tbl d) of [] \<Rightarrow> None | r # _ \<Rightarrow> Some (patch r)),
        d\<lparr>bookings_tbl := map (\<lambda>r. if b_id r = i then patch r else r) (bookings_tbl d),
         faults := tl fs,
          journal := journal d @
            [LoggerError ''Supabase error (bookings):'' (''Failed to update booking: '' @ ma),
             SetTimeout 1000,
             LoggerError ''Supabase error (bookings):'' (''Failed to update booking: '' @ mb),
             SetTimeout 2000]\<rparr>)
   \<and> deleteBooking j d =
       (Returned \<lparr>success = True\<rparr>,
        d\<lparr>bookings_tbl := filter (\<lambda>r. b_id r \<noteq> j) (bookings_tbl d),
         faults := tl fs,
          journal := journal d @
            [LoggerError ''Supabase error (bookings):'' (''Failed to delete booking: '' @ ma),
             SetTimeout 1000,
             LoggerError ''Supabase error (bookings):'' (''Failed to delete booking: '' @ mb),
             SetTimeout 2000]\<rparr>)
   \<and> deleteUser k d =
       (Returned \<lparr>success = True\<rparr>,
        d\<lparr>users_tbl := filter (\<lambda>u. u_id u \<noteq> k) (users_tbl d),
         faults := tl fs,
          journal := journal d @
            [LoggerError ''Supabase error (users):'' (''Failed to delete user: '' @ ma),
             SetTimeout 1000,
             LoggerError ''Supabase error (users):'' (''Failed to delete user: '' @ mb),
             SetTimeout 2000]\<rparr>)
   \<and> getUsers d' =
       (Thrown (Error (''Failed after 3 attempts: Failed to fetch users: '' @ nc)),
        d'\<lparr>faults := gs,
           journal := journal d' @
            [LoggerError ''Supabase error (users):'' (''Failed to fetch users: '' @ na),
             SetTimeout 1000,
             LoggerError ''Supabase error (users):'' (''Failed to fetch users: '' @ nb),
             SetTimeout 2000,
             LoggerError ''Supabase error (users):'' (''Failed to fetch users: '' @ nc)]\<rparr>)
   \<and> getBookings page limit d' =
       (Thrown (Error (''Failed after 3 attempts: Failed to fetch bookings: '' @ nc)),
        d'\<lparr>faults := gs,
           journal := journal d' @
            [LoggerError ''Error fetching bookings:'' na,
             LoggerError ''Supabase error (bookings):'' (''Failed to fetch bookings: '' @ na),
             SetTimeout 1000,
             LoggerError ''Error fetching bookings:'' nb,
             LoggerError ''Supabase error (bookings):'' (''Failed to fetch bookings: '' @ nb),
             SetTimeout 2000,
             LoggerError ''Error fetching bookings:'' nc,
             LoggerError ''Supabase error (bookings):'' (''Failed to fetch bookings: '' @ nc)]\<rparr>)
   \<and> createBooking bookingData d' =
       (Thrown (Error (''Failed after 3 attempts: Failed to create booking: '' @ nc)),
        d'\<lparr>faults := gs,
           journal := journal d' @
            [LoggerError ''Supabase error (bookings):'' (''Failed to create booking: '' @ na),
             SetTimeout 1000,
             LoggerError ''Supabase error (bookings):'' (''Failed to create booking: '' @ nb),
             SetTimeout 2000,
             LoggerError ''Supabase error (bookings):'' (''Failed to create booking: '' @ nc)]\<rparr>)
   \<and> updateBooking i patch d' =
       (Thrown (Error (''Failed after 3 attempts: Failed to update booking: '' @ nc)),
        d'\<lparr>faults := gs,
           journal := journal d' @
            [LoggerError ''Supabase error (bookings):'' (''Failed to update booking: '' @ na),
             SetTimeout 1000,
             LoggerError ''Supabase error (bookings):'' (''Failed to update booking: '' @ nb),
             SetTimeout 2000,
             LoggerError ''Supabase error (bookings):'' (''Failed to update booking: '' @ nc)]\<rparr>)
   \<and> deleteBooking j d' =
       (Thrown (Error (''Failed after 3 attempts: Failed to delete booking: '' @ nc)),
        d'\<lparr>faults := gs,
           journal := journal d' @
            [LoggerError ''Supabase error (bookings):'' (''Failed to delete booking: '' @ na),
             SetTimeout 1000,
             LoggerError ''Supabase error (bookings):'' (''Failed to delete booking: '' @ nb),
             SetTimeout 2000,
             LoggerError ''Supabase error (bookings):'' (''Failed to delete booking: '' @ nc)]\<rparr>)
   \<and> deleteUser k d' =
       (Thrown (Error (''Failed after 3 attempts: Failed to delete user: '' @ nc)),
        d'\<lparr>faults := gs,
           journal := journal d' @
            [LoggerError ''Supabase error (users):'' (''Failed to delete user: '' @ na),
             SetTimeout 1000,
             LoggerError ''Supabase error (users):'' (''Failed to delete user: '' @ nb),
             SetTimeout 2000,
             LoggerError ''Supabase error (users):'' (''Failed to delete user: '' @ nc)]\<rparr>)"
proof -
  note third = third_call_answers [OF assms(2)]
  have u2: "getUsers d =
         (Returned (Some (users_tbl d)),
          d\<lparr>faults := tl fs,
            journal := journal d @
              [LoggerError ''Supabase error (users):'' (''Failed to fetch users: '' @ ma),
               SetTimeout 1000,
               LoggerError ''Supabase error (users):'' (''Failed to fetch users: '' @ mb),
               SetTimeout 2000]\<rparr>)"
    using third assms(1)
    by (auto simp: getUsers_def getUsers_operation_def select_users_def retry_defs)
  have g2: "(1 \<le> page \<and> 1 \<le> limit \<and> (page - 1) * limit \<le> int (length (bookings_tbl d)) \<longrightarrow>
       getBookings page limit d =
         (Returned \<lparr>data = map (embed d)
                      (window ((page - 1) * limit) ((page - 1) * limit + limit - 1)
                         (order_created_at_desc (bookings_tbl d))),
                   count = Some (length (bookings_tbl d)),
                   totalPages = Num \<lceil>real (length (bookings_tbl d)) / real_of_int limit\<rceil>\<rparr>,
          d\<lparr>faults := tl fs,
            journal := journal d @
              [LoggerError ''Error fetching bookings:'' ma,
               LoggerError ''Supabase error (bookings):'' (''Failed to fetch bookings: '' @ ma),
               SetTimeout 1000,
               LoggerError ''Error fetching bookings:'' mb,
               LoggerError ''Supabase error (bookings):'' (''Failed to fetch bookings: '' @ mb),
               SetTimeout 2000]\<rparr>))"
  proof (intro impI, elim conjE)
    assume p: "1 \<le> page" and l: "1 \<le> limit"
      and r: "(page - 1) * limit \<le> int (length (bookings_tbl d))"
    have nn: "\<not> (page - 1) * limit < 0"
      using p l by (simp add: not_less)
    show "getBookings page limit d =
         (Returned \<lparr>data = map (embed d)
                      (window ((page - 1) * limit) ((page - 1) * limit + limit - 1)
                         (order_created_at_desc (bookings_tbl d))),
                   count = Some (length (bookings_tbl d)),
                   totalPages = Num \<lceil>real (length (bookings_tbl d)) / real_of_int limit\<rceil>\<rparr>,
          d\<lparr>faults := tl fs,
            journal := journal d @
              [LoggerError ''Error fetching bookings:'' ma,
               LoggerError ''Supabase error (bookings):'' (''Failed to fetch bookings: '' @ ma),
               SetTimeout 1000,
               LoggerError ''Error fetching bookings:'' mb,
               LoggerError ''Supabase error (bookings):'' (''Failed to fetch bookings: '' @ mb),
               SetTimeout 2000]\<rparr>)"
      using third assms(1) l r nn
      by (auto simp: getBookings_def getBookings_operation_def select_bookings_def Let_def
          math_ceil_quotient_def embed_def retry_defs)
  qed
  have c2: "createBooking bookingData d =
         (Returned (Some bookingData),
          d\<lparr>bookings_tbl := bookings_tbl d @ [bookingData],
           faults := tl fs,
            journal := journal d @
              [LoggerError ''Supabase error (bookings):'' (''Failed to create booking: '' @ ma),
               SetTimeout 1000,
               LoggerError ''Supabase error (bookings):'' (''Failed to create booking: '' @ mb),
               SetTimeout 2000]\<rparr>)"
    using third assms(1)
    by (auto simp: createBooking_def createBooking_operation_def insert_booking_def first_row_def
        retry_defs)
  have p2: "updateBooking i patch d =
         (Returned (case filter (\<lambda>r. b_id r = i) (bookings_tbl d) of [] \<Rightarrow> None | r # _ \<Rightarrow> Some (patch r)),
          d\<lparr>bookings_tbl := map (\<lambda>r. if b_id r = i then patch r else r) (bookings_tbl d),
           faults := tl fs,
            journal := journal d @
              [LoggerError ''Supabase error (bookings):'' (''Failed to update booking: '' @ ma),
               SetTimeout 1000,
               LoggerError ''Supabase error (bookings):'' (''Failed to update booking: '' @ mb),
               SetTimeout 2000]\<rparr>)"
    using third assms(1)
    by (auto simp: updateBooking_def updateBooking_operation_def update_booking_def first_row_def
        retry_defs split: list.splits)
  have b2: "deleteBooking j d =
         (Returned \<lparr>success = True\<rparr>,
          d\<lparr>bookings_tbl := filter (\<lambda>r. b_id r \<noteq> j) (bookings_tbl d),
           faults := tl fs,
            journal := journal d @
              [LoggerError ''Supabase error (bookings):'' (''Failed to delete booking: '' @ ma),
               SetTimeout 1000,
               LoggerError ''Supabase error (bookings):'' (''Failed to delete booking: '' @ mb),
               SetTimeout 2000]\<rparr>)"
    using third assms(1)
    by (auto simp: deleteBooking_def deleteBooking_operation_def delete_booking_def retry_defs)
  have d2: "deleteUser k d =
         (Returned \<lparr>success = True\<rparr>,
          d\<lparr>users_tbl := filter (\<lambda>u. u_id u \<noteq> k) (users_tbl d),
           faults := tl fs,
            journal := journal d @
              [LoggerError ''Supabase error (users):'' (''Failed to delete user: '' @ ma),
               SetTimeout 1000,
               LoggerError ''Supabase error (users):'' (''Failed to delete user: '' @ mb),
               SetTimeout 2000]\<rparr>)"
    using third assms(1)
    by (auto simp: deleteUser_def deleteUser_operation_def delete_user_def retry_defs)
  have u3: "getUsers d' =
         (Thrown (Error (''Failed after 3 attempts: Failed to fetch users: '' @ nc)),
          d'\<lparr>faults := gs,
             journal := journal d' @
              [LoggerError ''Supabase error (users):'' (''Failed to fetch users: '' @ na),
               SetTimeout 1000,
               LoggerError ''Supabase error (users):'' (''Failed to fetch users: '' @ nb),
               SetTimeout 2000,
               LoggerError ''Supabase error (users):'' (''Failed to fetch users: '' @ nc)]\<rparr>)"
    using assms(3)
    by (simp add: getUsers_def getUsers_operation_def select_users_def retry_defs)
  have g3: "getBookings page limit d' =
         (Thrown (Error (''Failed after 3 attempts: Failed to fetch bookings: '' @ nc)),
          d'\<lparr>faults := gs,
             journal := journal d' @
              [LoggerError ''Error fetching bookings:'' na,
               LoggerError ''Supabase error (bookings):'' (''Failed to fetch bookings: '' @ na),
               SetTimeout 1000,
               LoggerError ''Error fetching bookings:'' nb,
               LoggerError ''Supabase error (bookings):'' (''Failed to fetch bookings: '' @ nb),
               SetTimeout 2000,
               LoggerError ''Error fetching bookings:'' nc,
               LoggerError ''Supabase error (bookings):'' (''Failed to fetch bookings: '' @ nc)]\<rparr>)"
    using assms(3)
    by (simp add: getBookings_def getBookings_operation_def select_bookings_def Let_def retry_defs)
  have c3: "createBooking bookingData d' =
         (Thrown (Error (''Failed after 3 attempts: Failed to create booking: '' @ nc)),
          d'\<lparr>faults := gs,
             journal := journal d' @
              [LoggerError ''Supabase error (bookings):'' (''Failed to create booking: '' @ na),
               SetTimeout 1000,
               LoggerError ''Supabase error (bookings):'' (''Failed to create booking: '' @ nb),
               SetTimeout 2000,
               LoggerError ''Supabase error (bookings):'' (''Failed to create booking: '' @ nc)]\<rparr>)"
    using assms(3)
    by (simp add: createBooking_def createBooking_operation_def insert_booking_def retry_defs)
  have p3: "updateBooking i patch d' =
         (Thrown (Error (''Failed after 3 attempts: Failed to update booking: '' @ nc)),
          d'\<lparr>faults := gs,
             journal := journal d' @
              [LoggerError ''Supabase error (bookings):'' (''Failed to update booking: '' @ na),
               SetTimeout 1000,
               LoggerError ''Supabase error (bookings):'' (''Failed to update booking: '' @ nb),
               SetTimeout 2000,
               LoggerError ''Supabase error (bookings):'' (''Failed to update booking: '' @ nc)]\<rparr>)"
    using assms(3)
    by (simp add: updateBooking_def updateBooking_operation_def update_booking_def retry_defs)
  have b3: "deleteBooking j d' =
         (Thrown (Error (''Failed after 3 attempts: Failed to delete booking: '' @ nc)),
          d'\<lparr>faults := gs,
             journal := journal d' @
              [LoggerError ''Supabase error (bookings):'' (''Failed to delete booking: '' @ na),
               SetTimeout 1000,
               LoggerError ''Supabase error (bookings):'' (''Failed to delete booking: '' @ nb),
               SetTimeout 2000,
               LoggerError ''Supabase error (bookings):'' (''Failed to delete booking: '' @ nc)]\<rparr>)"
    using assms(3)
    by (simp add: deleteBooking_def deleteBooking_operation_def delete_booking_def retry_defs)
  have d3: "deleteUser k d' =
         (Thrown (Error (''Failed after 3 attempts: Failed to delete user: '' @ nc)),
          d'\<lparr>faults := gs,
             journal := journal d' @
              [LoggerError ''Supabase error (users):'' (''Failed to delete user: '' @ na),
               SetTimeout 1000,
               LoggerError ''Supabase error (users):'' (''Failed to delete user: '' @ nb),
               SetTimeout 2000,
               LoggerError ''Supabase error (users):'' (''Failed to delete user: '' @ nc)]\<rparr>)"
    using assms(3)
    by (simp add: deleteUser_def deleteUser_operation_def delete_user_def retry_defs)
  from u2 g2 c2 p2 b2 d2 u3 g3 c3 p3 b3 d3 show ?thesis
    by (intro conjI)
qed


theorem C6_retry_policy_witness:
  "faults fails_twice = [Some ''connection reset'', Some ''timeout'']
   \<and> faults fails_thrice = [Some ''connection reset'', Some ''timeout'', Some ''bad gateway'']
   \<and> fst (getUsers fails_twice) = Returned (Some [\<lparr>u_id = 1, u_email = ''ana@example.com''\<rparr>])
   \<and> journal (snd (getUsers fails_twice)) =
        [LoggerError ''Supabase error (users):'' ''Failed to fetch users: connection reset'',
         SetTimeout 1000,
         LoggerError ''Supabase error (users):'' ''Failed to fetch users: timeout'',
         SetTimeout 2000]
   \<and> fst (getBookings 2 2 fails_twice) =
        Returned \<lparr>data = [\<lparr>v_id = 1, v_status = ''pending'', v_payment_status = ''unpaid'',
                           v_total_cost = 90, v_pickup_datetime = 9000,
                           v_user = Some \<lparr>u_id = 1, u_email = ''ana@example.com''\<rparr>,
                           v_service = Some \<lparr>s_id = 7, s_name = ''Tow''\<rparr>\<rparr>],
                  count = Some 3, totalPages = Num 2\<rparr>
   \<and> fst (createBooking (booking_at 4 400) fails_twice) = Returned (Some (booking_at 4 400))
   \<and> map b_id (bookings_tbl (snd (createBooking (booking_at 4 400) fails_twice))) = [1, 2, 3, 4]
   \<and> fst (updateBooking 2 (b_status_update (\<lambda>_. ''paid'')) fails_twice) =
        Returned (Some ((booking_at 2 300)\<lparr>b_status := ''paid''\<rparr>))
   \<and> map b_status (bookings_tbl (snd (updateBooking 2 (b_status_update (\<lambda>_. ''paid'')) fails_twice)))
        = [''pending'', ''paid'', ''pending'']
   \<and> fst (deleteBooking 2 fails_twice) = Returned \<lparr>success = True\<rparr>
   \<and> map b_id (bookings_tbl (snd (deleteBooking 2 fails_twice))) = [1, 3]
   \<and> fst (deleteUser 1 fails_twice) = Returned \<lparr>success = True\<rparr>
   \<and> users_tbl (snd (deleteUser 1 fails_twice)) = []
   \<and> fst (getUsers fails_thrice) =
        Thrown (Error ''Failed after 3 attempts: Failed to fetch users: bad gateway'')
   \<and> fst (getBookings 2 2 fails_thrice) =
        Thrown (Error ''Failed after 3 attempts: Failed to fetch bookings: bad gateway'')
   \<and> fst (createBooking (booking_at 4 400) fails_thrice) =
        Thrown (Error ''Failed after 3 attempts: Failed to create booking: bad gateway'')
   \<and> fst (updateBooking 2 (b_status_update (\<lambda>_. ''paid'')) fails_thrice) =
        Thrown (Error ''Failed after 3 attempts: Failed to update booking: bad gateway'')
   \<and> fst (deleteBooking 2 fails_thrice) =
        Thrown (Error ''Failed after 3 attempts: Failed to delete booking: bad gateway'')
   \<and> bookings_tbl (snd (deleteBooking 2 fails_thrice)) = bookings_tbl sample_db
   \<and> journal (snd (deleteBooking 2 fails_thrice)) =
        [LoggerError ''Supabase error (bookings):'' ''Failed to delete booking: connection reset'',
         SetTimeout 1000,
         LoggerError ''Supabase error (bookings):'' ''Failed to delete booking: timeout'',
         SetTimeout 2000,
         LoggerError ''Supabase error (bookings):'' ''Failed to delete booking: bad gateway'']
   \<and> fst (deleteUser 1 fails_thrice) =
        Thrown (Error ''Failed after 3 attempts: Failed to delete user: bad gateway'')"
proof -
  have h1: "faults fails_twice = Some ''connection reset'' # Some ''timeout'' # []"
    and h2: "fst (next_fault (fails_twice\<lparr>faults := []\<rparr>)) = None"
    and h3: "faults fails_thrice
               = Some ''connection reset'' # Some ''timeout'' # Some ''bad gateway'' # []"
    by (simp_all add: fails_twice_def fails_thrice_def next_fault_def)
  have tbl: "bookings_tbl fails_twice = [booking_at 1 100, booking_at 2 300, booking_at 3 200]"
    "users_tbl fails_twice = [\<lparr>u_id = 1, u_email = ''ana@example.com''\<rparr>]"
    "services_tbl fails_twice = [\<lparr>s_id = 7, s_name = ''Tow''\<rparr>]"
    "journal fails_twice = []" "journal fails_thrice = []"
    "bookings_tbl fails_thrice = bookings_tbl sample_db"
    by (simp_all add: fails_twice_def fails_thrice_def sample_db_def)
  from C6_retry_policy
         [OF h1 h2 h3, where page = 2 and limit = 2 and bookingData = "booking_at 4 400"
            and i = 2 and patch = "b_status_update (\<lambda>_. ''paid'')" and j = 2 and k = 1]
  show ?thesis
    using h1 h3
    by (simp add: tbl embed_def window_def booking_at_def order_created_at_desc_def)
qed

text \<open>
  Claim C7. When the store call goes through, \<open>getBookings(page, limit)\<close> with
  \<open>page \<ge> 1\<close>, \<open>limit \<ge> 1\<close> and an offset within the table returns the rows of the
  requested window of the table ordered by creation time, latest first, the total
  number of rows as \<open>count\<close>, and the ceiling of count / limit as \<open>totalPages\<close>. On a
  store without bookings, page 1 with limit 10 returns exactly
  \<open>{ data: [], count: 0, totalPages: 0 }\<close> and does not fail.
\<close>

theorem C7_getBookings_page:
  assumes "fst (next_fault d) = None" and "1 \<le> page" and "1 \<le> limit"
    and "(page - 1) * limit \<le> int (length (bookings_tbl d))"
  shows "fst (getBookings page limit d) =
           Returned \<lparr>data = map (embed d)
                              (window ((page - 1) * limit) ((page - 1) * limit + limit - 1)
                                 (order_created_at_desc (bookings_tbl d))),
                     count = Some (length (bookings_tbl d)),
                     totalPages = Num \<lceil>real (length (bookings_tbl d)) / real_of_int limit\<rceil>\<rparr>
       \<and> sorted_wrt (\<lambda>r s. b_created_at s \<le> b_created_at r)
            (window ((page - 1) * limit) ((page - 1) * limit + limit - 1)
               (order_created_at_desc (bookings_tbl d)))
       \<and> (bookings_tbl d = [] \<longrightarrow>
            fst (getBookings 1 10 d) = Returned \<lparr>data = [], count = Some 0, totalPages = Num 0\<rparr>)"
proof -
  have "0 \<le> (page - 1) * limit" using assms(2,3) by simp
  then have op: "getBookings_operation page limit d =
     (Inr \<lparr>data = map (embed d) (window ((page - 1) * limit) ((page - 1) * limit + limit - 1)
                                   (order_created_at_desc (bookings_tbl d))),
           count = Some (length (bookings_tbl d)),
           totalPages = math_ceil_quotient (length (bookings_tbl d)) limit\<rparr>,
      snd (next_fault d))"
    using assms by (intro getBookings_operation_ok) simp_all
  have ceil: "math_ceil_quotient (length (bookings_tbl d)) limit
              = Num \<lceil>real (length (bookings_tbl d)) / real_of_int limit\<rceil>"
    using assms(3) by (simp add: math_ceil_quotient_def)
  have first: "fst (getBookings page limit d) =
           Returned \<lparr>data = map (embed d)
                              (window ((page - 1) * limit) ((page - 1) * limit + limit - 1)
                                 (order_created_at_desc (bookings_tbl d))),
                     count = Some (length (bookings_tbl d)),
                     totalPages = Num \<lceil>real (length (bookings_tbl d)) / real_of_int limit\<rceil>\<rparr>"
    by (simp add: getBookings_def ceil
        handleSupabaseError_first_try [where operation = "getBookings_operation page limit", OF op])
  have empty: "fst (getBookings 1 10 d) = Returned \<lparr>data = [], count = Some 0, totalPages = Num 0\<rparr>"
    if "bookings_tbl d = []"
  proof -
    have "getBookings_operation 1 10 d =
            (Inr \<lparr>data = [], count = Some 0, totalPages = Num 0\<rparr>, snd (next_fault d))"
      using assms(1) that
      by (simp add: getBookings_operation_ok [where lo = 0] window_def order_created_at_desc_def
          math_ceil_quotient_def)
    then show ?thesis
      by (simp add: getBookings_def
          handleSupabaseError_first_try [where operation = "getBookings_operation 1 10"])
  qed
  from first window_sorted empty show ?thesis by blast
qed

theorem C7_getBookings_page_witness:
  "fst (next_fault sample_db) = None \<and> (1::int) \<le> 2
   \<and> (2 - 1) * 2 \<le> int (length (bookings_tbl sample_db))
   \<and> fst (getBookings 2 2 sample_db) =
       Returned \<lparr>data = [\<lparr>v_id = 1, v_status = ''pending'', v_payment_status = ''unpaid'',
                          v_total_cost = 90, v_pickup_datetime = 9000,
                          v_user = Some \<lparr>u_id = 1, u_email = ''ana@example.com''\<rparr>,
                          v_service = Some \<lparr>s_id = 7, s_name = ''Tow''\<rparr>\<rparr>],
                 count = Some 3, totalPages = Num 2\<rparr>
   \<and> order_created_at_desc (bookings_tbl sample_db)
       = [booking_at 2 300, booking_at 3 200, booking_at 1 100]"
proof -
  have h1: "fst (next_fault sample_db) = None"
    and h4: "(2 - 1) * 2 \<le> int (length (bookings_tbl sample_db))"
    by (simp_all add: next_fault_def sample_db_def)
  have h2: "(1::int) \<le> 2" by simp
  have ord: "order_created_at_desc (bookings_tbl sample_db)
       = [booking_at 2 300, booking_at 3 200, booking_at 1 100]"
    by (simp add: order_created_at_desc_def sample_db_def booking_at_def)
  have rows: "map (embed sample_db)
                (window ((2 - 1) * 2) ((2 - 1) * 2 + 2 - 1)
                   (order_created_at_desc (bookings_tbl sample_db)))
              = [\<lparr>v_id = 1, v_status = ''pending'', v_payment_status = ''unpaid'',
                  v_total_cost = 90, v_pickup_datetime = 9000,
                  v_user = Some \<lparr>u_id = 1, u_email = ''ana@example.com''\<rparr>,
                  v_service = Some \<lparr>s_id = 7, s_name = ''Tow''\<rparr>\<rparr>]"
    unfolding ord by (simp add: window_def embed_def sample_db_def booking_at_def)
  have pages: "\<lceil>real (length (bookings_tbl sample_db)) / real_of_int 2\<rceil> = 2"
    by (simp add: sample_db_def)
  have len: "length (bookings_tbl sample_db) = 3"
    by (simp add: sample_db_def)
  from C7_getBookings_page [OF h1 h2 h2 h4]
  have "fst (getBookings 2 2 sample_db) =
          Returned \<lparr>data = map (embed sample_db)
                (window ((2 - 1) * 2) ((2 - 1) * 2 + 2 - 1)
                   (order_created_at_desc (bookings_tbl sample_db))),
                 count = Some (length (bookings_tbl sample_db)),
                 totalPages = Num \<lceil>real (length (bookings_tbl sample_db)) / real_of_int 2\<rceil>\<rparr>"
    by (rule conjunct1)
  then show ?thesis
    unfolding rows pages len using h1 h2 h4 ord by simp
qed

text \<open>
  Claim C10. Whenever the store call reports no error, \<open>deleteBooking\<close> and
  \<open>deleteUser\<close> return \<open>{ success: true }\<close>, for every identifier: also when no row
  has that identifier, in which case the table is left as it was and the delete is
  still reported as a success, not as an error.
\<close>

theorem C10_delete_reports_success:
  assumes "fst (next_fault d) = None"
  shows "fst (deleteBooking i d) = Returned \<lparr>success = True\<rparr>
       \<and> fst (deleteUser i d) = Returned \<lparr>success = True\<rparr>
       \<and> (i \<notin> b_id ` set (bookings_tbl d) \<longrightarrow>
            bookings_tbl (snd (deleteBooking i d)) = bookings_tbl d)
       \<and> (i \<notin> u_id ` set (users_tbl d) \<longrightarrow>
            users_tbl (snd (deleteUser i d)) = users_tbl d)"
proof -
  obtain d' where nf: "next_fault d = (None, d')"
    using assms(1) by (cases "next_fault d") simp
  have b: "deleteBooking_operation i d =
             (Inr \<lparr>success = True\<rparr>,
              d'\<lparr>bookings_tbl := filter (\<lambda>r. b_id r \<noteq> i) (bookings_tbl d)\<rparr>)"
    by (simp add: deleteBooking_operation_def delete_booking_def nf next_fault_keeps [OF nf])
  have u: "deleteUser_operation i d =
             (Inr \<lparr>success = True\<rparr>,
              d'\<lparr>users_tbl := filter (\<lambda>r. u_id r \<noteq> i) (users_tbl d)\<rparr>)"
    by (simp add: deleteUser_operation_def delete_user_def nf next_fault_keeps [OF nf])
  have fb: "filter (\<lambda>r. b_id r \<noteq> i) (bookings_tbl d) = bookings_tbl d"
    if "i \<notin> b_id ` set (bookings_tbl d)"
    using that by (auto simp: filter_id_conv)
  have fu: "filter (\<lambda>r. u_id r \<noteq> i) (users_tbl d) = users_tbl d"
    if "i \<notin> u_id ` set (users_tbl d)"
    using that by (auto simp: filter_id_conv)
  show ?thesis
    by (simp add: deleteBooking_def deleteUser_def fb fu
        handleSupabaseError_first_try [where operation = "deleteBooking_operation i", OF b]
        handleSupabaseError_first_try [where operation = "deleteUser_operation i", OF u])
qed

theorem C10_delete_reports_success_witness:
  "fst (next_fault sample_db) = None
   \<and> 99 \<notin> b_id ` set (bookings_tbl sample_db) \<and> 99 \<notin> u_id ` set (users_tbl sample_db)
   \<and> fst (deleteBooking 99 sample_db) = Returned \<lparr>success = True\<rparr>
   \<and> fst (deleteUser 99 sample_db) = Returned \<lparr>success = True\<rparr>
   \<and> bookings_tbl (snd (deleteBooking 99 sample_db)) = bookings_tbl sample_db
   \<and> users_tbl (snd (deleteUser 99 sample_db)) = users_tbl sample_db"
proof -
  have h: "fst (next_fault sample_db) = None"
    by (simp add: next_fault_def sample_db_def)
  have nb: "99 \<notin> b_id ` set (bookings_tbl sample_db)"
    and nu: "99 \<notin> u_id ` set (users_tbl sample_db)"
    by (simp_all add: sample_db_def booking_at_def)
  from C10_delete_reports_success [OF h, of 99] h nb nu show ?thesis by simp
qed

end
